theory Spec2Isabelle
  imports Complex_Main
begin

section \<open>The bounce easing function of \<^verbatim>\<open>bounce-function.js\<close>\<close>

text \<open>
  The repository is one JavaScript function, \<^verbatim>\<open>makeBounceFunction\<close>, that normalises its
  two arguments, counts the bounces, sums their durations, fills four parallel arrays and
  returns a closure over them. The embedding follows the source line by line.

  Numbers are JavaScript numbers in exact arithmetic: a finite number is a real, and the
  three special values of the language are kept, because the source can produce them
  (\<^verbatim>\<open>0 / 0\<close> is \<^verbatim>\<open>NaN\<close>, not 0 as in HOL) and can receive them. Rounding,
  underflow and overflow of the 64-bit format are not modelled, and neither is the sign of
  zero: the only divisors of the source that can be zero are squares. What is proved is
  therefore proved of the algorithm in exact arithmetic.
\<close>

subsection \<open>JavaScript numbers and values\<close>

datatype number = Finite real | PosInfinity | NegInfinity | NaN

text \<open>
  An argument of the function is any JavaScript value. Of a value that is not a number
  the source only takes the type (\<^verbatim>\<open>typeof\<close>), the truth value (\<^verbatim>\<open>!v\<close>) and
  the number it converts to in a comparison with a number, so a string, an object or any
  other such value is \<open>JOther truth n\<close>: its truth value and the number it converts to.
  Values whose conversion throws (a symbol, an object with a throwing \<^verbatim>\<open>valueOf\<close>) are
  outside the model.
\<close>

datatype jsval =
    JUndefined
  | JNull
  | JBoolean bool
  | JNumber number
  | JOther bool number

fun is_number :: "jsval \<Rightarrow> bool" where
  \<comment> \<open>\<^verbatim>\<open>typeof v === "number"\<close>\<close>
  "is_number (JNumber n) = True"
| "is_number v = False"

fun truthy :: "jsval \<Rightarrow> bool" where
  "truthy JUndefined = False"
| "truthy JNull = False"
| "truthy (JBoolean b) = b"
| "truthy (JNumber n) = (n \<noteq> Finite 0 \<and> n \<noteq> NaN)"
| "truthy (JOther t n) = t"

fun to_number :: "jsval \<Rightarrow> number" where
  "to_number JUndefined = NaN"
| "to_number JNull = Finite 0"
| "to_number (JBoolean b) = Finite (if b then 1 else 0)"
| "to_number (JNumber n) = n"
| "to_number (JOther t n) = n"

fun js_lt :: "number \<Rightarrow> number \<Rightarrow> bool" where
  "js_lt (Finite a) (Finite b) = (a < b)"
| "js_lt NaN b = False"
| "js_lt a NaN = False"
| "js_lt a NegInfinity = False"
| "js_lt PosInfinity b = False"
| "js_lt NegInfinity b = True"
| "js_lt (Finite a) PosInfinity = True"

definition js_gt :: "number \<Rightarrow> number \<Rightarrow> bool" where
  "js_gt a b = js_lt b a"

definition js_ge :: "number \<Rightarrow> number \<Rightarrow> bool" where
  "js_ge a b = (a \<noteq> NaN \<and> b \<noteq> NaN \<and> \<not> js_lt a b)"

fun js_neg :: "number \<Rightarrow> number" where
  "js_neg (Finite a) = Finite (- a)"
| "js_neg PosInfinity = NegInfinity"
| "js_neg NegInfinity = PosInfinity"
| "js_neg NaN = NaN"

fun js_add :: "number \<Rightarrow> number \<Rightarrow> number" where
  "js_add (Finite a) (Finite b) = Finite (a + b)"
| "js_add NaN b = NaN"
| "js_add a NaN = NaN"
| "js_add PosInfinity NegInfinity = NaN"
| "js_add NegInfinity PosInfinity = NaN"
| "js_add PosInfinity b = PosInfinity"
| "js_add NegInfinity b = NegInfinity"
| "js_add (Finite a) b = b"

definition js_sub :: "number \<Rightarrow> number \<Rightarrow> number" where
  "js_sub a b = js_add a (js_neg b)"

definition signed_infinity :: "real \<Rightarrow> number" where
  \<comment> \<open>the infinity of the sign of \<open>s\<close>; no sign gives \<^verbatim>\<open>NaN\<close>\<close>
  "signed_infinity s = (if s = 0 then NaN else if 0 < s then PosInfinity else NegInfinity)"

fun sign_of :: "number \<Rightarrow> real" where
  "sign_of (Finite a) = sgn a"
| "sign_of PosInfinity = 1"
| "sign_of NegInfinity = - 1"
| "sign_of NaN = 0"

fun js_mul :: "number \<Rightarrow> number \<Rightarrow> number" where
  "js_mul (Finite a) (Finite b) = Finite (a * b)"
| "js_mul NaN b = NaN"
| "js_mul a NaN = NaN"
| "js_mul a b = signed_infinity (sign_of a * sign_of b)"

fun js_div :: "number \<Rightarrow> number \<Rightarrow> number" where
  "js_div (Finite a) (Finite b) = (if b = 0 then signed_infinity a else Finite (a / b))"
| "js_div NaN b = NaN"
| "js_div a NaN = NaN"
| "js_div (Finite a) b = Finite 0"
| "js_div a (Finite b) = signed_infinity (sign_of a * (if b < 0 then - 1 else 1))"
| "js_div a b = NaN"

fun js_pow :: "number \<Rightarrow> nat \<Rightarrow> number" where
  \<comment> \<open>\<^verbatim>\<open>Math.pow\<close> at a natural exponent; \<^verbatim>\<open>Math.pow(x, 0)\<close> is 1 for every \<open>x\<close>\<close>
  "js_pow a 0 = Finite 1"
| "js_pow (Finite a) n = Finite (a ^ n)"
| "js_pow NaN n = NaN"
| "js_pow PosInfinity n = PosInfinity"
| "js_pow NegInfinity n = (if even n then PosInfinity else NegInfinity)"

definition item :: "number list \<Rightarrow> nat \<Rightarrow> number" where
  \<comment> \<open>\<^verbatim>\<open>xs[i]\<close> read as a number: past the end it is \<^verbatim>\<open>undefined\<close>, which converts to \<^verbatim>\<open>NaN\<close>\<close>
  "item xs i = (if i < length xs then xs ! i else NaN)"

subsection \<open>Lines 15 to 24: the arguments\<close>

definition normalise_timeBetweenBounces :: "jsval \<Rightarrow> jsval" where
  "normalise_timeBetweenBounces timeBetweenBounces =
     (if timeBetweenBounces = JUndefined \<or> \<not> is_number timeBetweenBounces
         \<or> js_ge (to_number timeBetweenBounces) (Finite 1)
      then JNumber (Finite (1 / 2))
      else if js_lt (to_number timeBetweenBounces) (Finite 0) then JNumber (Finite 0)
      else timeBetweenBounces)"

definition normalise_bounceBackThreshold :: "jsval \<Rightarrow> jsval \<Rightarrow> jsval" where
  \<comment> \<open>the first argument is \<^verbatim>\<open>timeBetweenBounces\<close> as line 15 to 19 left it\<close>
  "normalise_bounceBackThreshold timeBetweenBounces bounceBackThreshold =
     (if \<not> truthy bounceBackThreshold \<or> \<not> is_number timeBetweenBounces
      then JNumber (Finite (1 / 100))
      else bounceBackThreshold)"

subsection \<open>Lines 26 to 32: the number of bounces\<close>

text \<open>
  The \<^verbatim>\<open>while\<close> loop need not end, so it is a partial function: \<open>None\<close> is a call of
  \<^verbatim>\<open>makeBounceFunction\<close> that never returns.
\<close>

partial_function (option) bounce_loop :: "number \<Rightarrow> number \<Rightarrow> number \<Rightarrow> nat \<Rightarrow> nat option" where
  "bounce_loop timeBetweenBounces bounceBackThreshold howFarUpItWillBounce i =
     (if js_gt howFarUpItWillBounce bounceBackThreshold
      then bounce_loop timeBetweenBounces bounceBackThreshold
             (js_pow timeBetweenBounces (2 * i)) (i + 1)
      else Some i)"

subsection \<open>Lines 35 to 38: the total time\<close>

function totalTime_loop :: "number \<Rightarrow> nat \<Rightarrow> nat \<Rightarrow> number \<Rightarrow> number" where
  "totalTime_loop timeBetweenBounces numberOfBounces i totalTime =
     (if i \<le> numberOfBounces
      then totalTime_loop timeBetweenBounces numberOfBounces (i + 1)
             (js_add totalTime (js_mul (js_pow timeBetweenBounces i) (Finite 2)))
      else totalTime)"
  by pat_completeness auto
termination
  by (relation "measure (\<lambda>(d, n, i, t). Suc n - i)") auto

subsection \<open>Lines 41 to 53: the four arrays\<close>

record tables =
  timeBreakPoints :: "number list"
  timeHalfwayPoints :: "number list"
  normalisingFactors :: "number list"
  normalisingConstants :: "number list"

definition table_step :: "number \<Rightarrow> number \<Rightarrow> nat \<Rightarrow> number \<times> tables \<Rightarrow> number \<times> tables" where
  \<comment> \<open>the body of the loop of line 46, on \<^verbatim>\<open>lastBreakPoint\<close> and the arrays\<close>
  "table_step timeBetweenBounces totalTime i s =
     (let lastBreakPoint =
            js_add (fst s) (js_mul (js_div (js_pow timeBetweenBounces i) totalTime) (Finite 2));
          bps = timeBreakPoints (snd s) @ [lastBreakPoint];
          timeHalf = js_div (js_sub lastBreakPoint (item bps (i - 1))) (Finite 2);
          hps = timeHalfwayPoints (snd s) @ [js_add timeHalf (item bps (i - 1))];
          ncs = normalisingConstants (snd s)
                  @ [js_sub (Finite 1) (js_pow timeBetweenBounces (2 * i))];
          nfs = normalisingFactors (snd s)
                  @ [js_div (js_sub (Finite 1) (item ncs i)) (js_mul timeHalf timeHalf)]
      in (lastBreakPoint,
          \<lparr>timeBreakPoints = bps, timeHalfwayPoints = hps,
           normalisingFactors = nfs, normalisingConstants = ncs\<rparr>))"

function table_loop :: "number \<Rightarrow> number \<Rightarrow> nat \<Rightarrow> nat \<Rightarrow> number \<times> tables \<Rightarrow> number \<times> tables" where
  "table_loop timeBetweenBounces totalTime numberOfBounces i s =
     (if i \<le> numberOfBounces
      then table_loop timeBetweenBounces totalTime numberOfBounces (i + 1)
             (table_step timeBetweenBounces totalTime i s)
      else s)"
  by pat_completeness auto
termination
  by (relation "measure (\<lambda>(d, t, n, i, s). Suc n - i)") auto

definition initial_tables :: "number \<Rightarrow> tables" where
  \<comment> \<open>lines 41 to 44\<close>
  "initial_tables totalTime =
     \<lparr>timeBreakPoints = [js_div (Finite 1) totalTime],
      timeHalfwayPoints = [Finite 0],
      normalisingFactors =
        [js_div (Finite 1)
           (js_mul (js_div (Finite 1) totalTime) (js_div (Finite 1) totalTime))],
      normalisingConstants = [Finite 0]\<rparr>"

subsection \<open>The variables the returned closure captures\<close>

record profile =
  timeBetweenBounces :: jsval
  bounceBackThreshold :: jsval
  numberOfBounces :: nat
  totalTime :: number
  arrays :: tables

definition makeProfile :: "jsval \<Rightarrow> jsval \<Rightarrow> profile option" where
  \<comment> \<open>lines 15 to 53: everything before the \<^verbatim>\<open>return\<close>\<close>
  "makeProfile timeBetweenBounces0 bounceBackThreshold0 =
     (let tbb = normalise_timeBetweenBounces timeBetweenBounces0;
          bbt = normalise_bounceBackThreshold tbb bounceBackThreshold0
      in case bounce_loop (to_number tbb) (to_number bbt) (Finite 1) 0 of
           None \<Rightarrow> None
         | Some n \<Rightarrow>
             (let tt = totalTime_loop (to_number tbb) n 1 (Finite 1);
                  T0 = initial_tables tt
              in Some \<lparr>timeBetweenBounces = tbb,
                       bounceBackThreshold = bbt,
                       numberOfBounces = n,
                       totalTime = tt,
                       arrays =
                         snd (table_loop (to_number tbb) tt n 1
                                (item (timeBreakPoints T0) 0, T0))\<rparr>))"

subsection \<open>Lines 56 to 66: the easing function\<close>

definition parabola :: "profile \<Rightarrow> nat \<Rightarrow> number \<Rightarrow> number" where
  \<comment> \<open>line 63: \<^verbatim>\<open>x -= ...\<close> is evaluated before the second factor \<^verbatim>\<open>x\<close> is read\<close>
  "parabola P i x =
     (let x' = js_sub x (item (timeHalfwayPoints (arrays P)) i)
      in js_add (js_mul (js_mul (item (normalisingFactors (arrays P)) i) x') x')
                (item (normalisingConstants (arrays P)) i))"

function easing_loop :: "profile \<Rightarrow> number \<Rightarrow> nat \<Rightarrow> jsval" where
  "easing_loop P x i =
     (if i \<le> numberOfBounces P
      then (if js_lt x (item (timeBreakPoints (arrays P)) i)
            then JNumber (parabola P i x)
            else easing_loop P x (i + 1))
      else JUndefined)"
  by pat_completeness auto
termination
  by (relation "measure (\<lambda>(P, x, i). Suc (numberOfBounces P) - i)") auto

definition easing :: "profile \<Rightarrow> number \<Rightarrow> jsval" where
  \<comment> \<open>the argument \<open>x\<close> is a number, as the comment of line 55 says\<close>
  "easing P x = (if x = Finite 1 then JNumber (Finite 1) else easing_loop P x 0)"

definition makeBounceFunction :: "jsval \<Rightarrow> jsval \<Rightarrow> (number \<Rightarrow> jsval) option" where
  "makeBounceFunction timeBetweenBounces0 bounceBackThreshold0 =
     map_option easing (makeProfile timeBetweenBounces0 bounceBackThreshold0)"

subsection \<open>Closed forms of the loops\<close>

text \<open>
  These are not in the source: they say, as real numbers, what the loops compute from a
  finite \<^verbatim>\<open>timeBetweenBounces\<close> \<open>d\<close> and a number of bounces \<open>n\<close>. The lemmas
  below prove that the loops compute exactly these, and the theorems are stated on the
  definitions of the source.
\<close>

definition closed_totalTime :: "real \<Rightarrow> nat \<Rightarrow> real" where
  "closed_totalTime d n = 1 + 2 * (\<Sum>k = 1..n. d ^ k)"

definition closed_breakPoint :: "real \<Rightarrow> nat \<Rightarrow> nat \<Rightarrow> real" where
  "closed_breakPoint d n i = (1 + 2 * (\<Sum>k = 1..i. d ^ k)) / closed_totalTime d n"

definition closed_halfwayPoint :: "real \<Rightarrow> nat \<Rightarrow> nat \<Rightarrow> real" where
  "closed_halfwayPoint d n i =
     (if i = 0 then 0 else closed_breakPoint d n (i - 1) + d ^ i / closed_totalTime d n)"

definition closed_factor :: "real \<Rightarrow> nat \<Rightarrow> nat \<Rightarrow> number" where
  "closed_factor d n i = (if i = 0 \<or> d \<noteq> 0 then Finite ((closed_totalTime d n)\<^sup>2) else NaN)"

definition closed_constant :: "real \<Rightarrow> nat \<Rightarrow> real" where
  "closed_constant d i = 1 - d ^ (2 * i)"

definition closed_tables :: "real \<Rightarrow> nat \<Rightarrow> nat \<Rightarrow> tables" where
  "closed_tables d n i =
     \<lparr>timeBreakPoints = map (\<lambda>j. Finite (closed_breakPoint d n j)) [0..<i],
      timeHalfwayPoints = map (\<lambda>j. Finite (closed_halfwayPoint d n j)) [0..<i],
      normalisingFactors = map (closed_factor d n) [0..<i],
      normalisingConstants = map (\<lambda>j. Finite (closed_constant d j)) [0..<i]\<rparr>"

definition closed_profile :: "real \<Rightarrow> jsval \<Rightarrow> nat \<Rightarrow> profile" where
  "closed_profile d th n =
     \<lparr>timeBetweenBounces = JNumber (Finite d),
      bounceBackThreshold = th,
      numberOfBounces = n,
      totalTime = Finite (closed_totalTime d n),
      arrays = closed_tables d n (Suc n)\<rparr>"

text \<open>
  The call \<^verbatim>\<open>makeBounceFunction(0, 0.01)\<close> traced by hand: two bounces, a total time of
  1, every break point at 1, and \<^verbatim>\<open>0 / 0\<close> as the factor of both bounces.
\<close>

abbreviation zero_decay_profile :: profile where
  "zero_decay_profile \<equiv>
     \<lparr>timeBetweenBounces = JNumber (Finite 0),
      bounceBackThreshold = JNumber (Finite (1 / 100)),
      numberOfBounces = 2,
      totalTime = Finite 1,
      arrays =
        \<lparr>timeBreakPoints = [Finite 1, Finite 1, Finite 1],
         timeHalfwayPoints = [Finite 0, Finite 1, Finite 1],
         normalisingFactors = [Finite 1, NaN, NaN],
         normalisingConstants = [Finite 0, Finite 1, Finite 1]\<rparr>\<rparr>"


section \<open>What the loops compute\<close>

subsection \<open>The total time and the arrays\<close>

lemma js_pow_Finite: "js_pow (Finite a) n = Finite (a ^ n)"
  by (cases n) simp_all

lemma totalTime_loop_Finite:
  "totalTime_loop (Finite d) n i (Finite t) = Finite (t + 2 * (\<Sum>k = i..n. d ^ k))"
proof (induction "Suc n - i" arbitrary: i t)
  case 0
  then show ?case by simp
next
  case (Suc m)
  then have le: "i \<le> n" and m: "m = Suc n - Suc i" by simp_all
  have "(\<Sum>k = i..n. d ^ k) = d ^ i + (\<Sum>k = Suc i..n. d ^ k)"
    using le by (simp add: sum.atLeast_Suc_atMost)
  with Suc.hyps(1) [OF m] le show ?case
    by (simp add: js_pow_Finite algebra_simps)
qed

lemma closed_totalTime_pos: "0 \<le> d \<Longrightarrow> 1 \<le> closed_totalTime d n"
  by (simp add: closed_totalTime_def sum_nonneg)

lemma closed_breakPoint_Suc:
  "closed_breakPoint d n (Suc i) = closed_breakPoint d n i + d ^ Suc i / closed_totalTime d n * 2"
  by (simp add: closed_breakPoint_def add_divide_distrib algebra_simps)

lemma item_snoc_last: "length xs = i \<Longrightarrow> item (xs @ [x]) i = x"
  by (auto simp: item_def)

lemma power_double: "(d::real) ^ (2 * k) = (d ^ k)\<^sup>2"
  by (subst mult.commute) (rule power_mult)

lemma item_snoc_before: "i < length xs \<Longrightarrow> item (xs @ [x]) i = item xs i"
  by (simp add: item_def nth_append)

lemma item_map_upt: "i < k \<Longrightarrow> item (map f [0..<k]) i = f i"
  by (simp add: item_def)

lemma factor_step:
  assumes T: "T \<noteq> 0"
  shows "js_div (js_sub (Finite 1) (Finite (1 - d ^ (2 * Suc i))))
           (js_mul (Finite (d ^ Suc i / T)) (Finite (d ^ Suc i / T)))
         = (if d \<noteq> 0 then Finite (T\<^sup>2) else NaN)"
proof (cases "d = 0")
  case True
  then show ?thesis by (simp add: js_sub_def signed_infinity_def)
next
  case False
  have "d ^ (2 * Suc i) = (d ^ Suc i)\<^sup>2" by (rule power_double)
  then have "(1 - (1 - d ^ (2 * Suc i))) / (d ^ Suc i / T * (d ^ Suc i / T)) = T\<^sup>2"
    using False T by (simp add: power2_eq_square)
  with False T show ?thesis by (simp add: js_sub_def)
qed

lemma table_step_closed:
  assumes "0 \<le> d"
  shows "table_step (Finite d) (Finite (closed_totalTime d n)) (Suc i)
           (Finite (closed_breakPoint d n i), closed_tables d n (Suc i))
         = (Finite (closed_breakPoint d n (Suc i)), closed_tables d n (Suc (Suc i)))"
proof -
  let ?T = "closed_totalTime d n"
  let ?bps = "map (\<lambda>j. Finite (closed_breakPoint d n j)) [0..<Suc i]"
  have T: "?T \<noteq> 0" using closed_totalTime_pos [OF assms, of n] by simp
  have lbp: "js_add (Finite (closed_breakPoint d n i))
               (js_mul (js_div (js_pow (Finite d) (Suc i)) (Finite ?T)) (Finite 2))
             = Finite (closed_breakPoint d n (Suc i))"
    using T by (simp add: closed_breakPoint_Suc)
  have prev: "item (?bps @ [Finite (closed_breakPoint d n (Suc i))]) (Suc i - 1)
              = Finite (closed_breakPoint d n i)"
    by (simp add: item_snoc_before item_map_upt del: upt_Suc)
  have half: "js_div (js_sub (Finite (closed_breakPoint d n (Suc i)))
                        (Finite (closed_breakPoint d n i))) (Finite 2)
              = Finite (d ^ Suc i / ?T)"
    by (simp add: js_sub_def closed_breakPoint_Suc)
  have hp: "js_add (Finite (d ^ Suc i / ?T)) (Finite (closed_breakPoint d n i))
            = Finite (closed_halfwayPoint d n (Suc i))"
    by (simp add: closed_halfwayPoint_def)
  have nc: "js_sub (Finite 1) (js_pow (Finite d) (2 * Suc i))
            = Finite (closed_constant d (Suc i))"
    by (simp add: js_sub_def closed_constant_def)
  have ncitem: "item (map (\<lambda>j. Finite (closed_constant d j)) [0..<Suc i]
                   @ [Finite (closed_constant d (Suc i))]) (Suc i)
                = Finite (1 - d ^ (2 * Suc i))"
    by (simp add: item_snoc_last closed_constant_def del: upt_Suc)
  have nf: "js_div (js_sub (Finite 1) (Finite (1 - d ^ (2 * Suc i))))
              (js_mul (Finite (d ^ Suc i / ?T)) (Finite (d ^ Suc i / ?T)))
            = closed_factor d n (Suc i)"
    using factor_step [OF T, of d i] by (simp add: closed_factor_def)
  have snoc: "\<And>f. map f [0..<Suc (Suc i)] = map f [0..<Suc i] @ [f (Suc i)]"
    by simp
  show ?thesis
    unfolding table_step_def Let_def closed_tables_def fst_conv snd_conv tables.simps
      lbp prev half hp nc ncitem nf
    by simp
qed

lemma table_loop_closed:
  assumes "0 \<le> d" and "i \<le> n"
  shows "table_loop (Finite d) (Finite (closed_totalTime d n)) n (Suc i)
           (Finite (closed_breakPoint d n i), closed_tables d n (Suc i))
         = (Finite (closed_breakPoint d n n), closed_tables d n (Suc n))"
  using assms(2)
proof (induction "n - i" arbitrary: i)
  case 0
  then have "i = n" by simp
  then show ?case by simp
next
  case (Suc m)
  then have "m = n - Suc i" "Suc i \<le> n" by simp_all
  from Suc.hyps(1) [OF this] show ?case
    using \<open>Suc i \<le> n\<close> by (subst table_loop.simps) (simp add: table_step_closed [OF assms(1)] del: table_loop.simps)
qed

lemma normalise_timeBetweenBounces_id:
  "0 \<le> d \<Longrightarrow> d < 1 \<Longrightarrow> normalise_timeBetweenBounces (JNumber (Finite d)) = JNumber (Finite d)"
  by (simp add: normalise_timeBetweenBounces_def js_ge_def)

lemma normalise_bounceBackThreshold_id:
  "truthy th \<Longrightarrow> normalise_bounceBackThreshold (JNumber d) th = th"
  by (simp add: normalise_bounceBackThreshold_def)

lemma initial_tables_closed:
  assumes "0 \<le> d"
  shows "initial_tables (Finite (closed_totalTime d n)) = closed_tables d n (Suc 0)"
proof -
  have T: "closed_totalTime d n \<noteq> 0" using closed_totalTime_pos [OF assms, of n] by simp
  then show ?thesis
    by (simp add: initial_tables_def closed_tables_def closed_breakPoint_def
        closed_halfwayPoint_def closed_factor_def closed_constant_def power2_eq_square)
qed

lemma tables_of_closed_totalTime:
  assumes "0 \<le> d"
  shows "snd (table_loop (Finite d) (Finite (closed_totalTime d n)) n (Suc 0)
           (item (timeBreakPoints (initial_tables (Finite (closed_totalTime d n)))) 0,
            initial_tables (Finite (closed_totalTime d n))))
         = closed_tables d n (Suc n)"
proof -
  have "item (timeBreakPoints (closed_tables d n (Suc 0))) 0 = Finite (closed_breakPoint d n 0)"
    by (simp add: closed_tables_def item_def)
  then show ?thesis
    using table_loop_closed [OF assms, of 0 n]
    by (simp add: initial_tables_closed [OF assms] del: table_loop.simps)
qed

lemma totalTime_loop_closed:
  "totalTime_loop (Finite d) n (Suc 0) (Finite 1) = Finite (closed_totalTime d n)"
  by (simp add: totalTime_loop_Finite closed_totalTime_def del: totalTime_loop.simps)

lemma makeProfile_closed:
  assumes "0 \<le> d" and "d < 1" and "truthy th"
  shows "makeProfile (JNumber (Finite d)) th
         = map_option (closed_profile d th) (bounce_loop (Finite d) (to_number th) (Finite 1) 0)"
  by (simp add: makeProfile_def Let_def normalise_timeBetweenBounces_id [OF assms(1,2)]
      normalise_bounceBackThreshold_id [OF assms(3)] totalTime_loop_closed
      tables_of_closed_totalTime [OF assms(1)] closed_profile_def
      del: table_loop.simps totalTime_loop.simps split: option.split)

subsection \<open>The break points\<close>

lemma closed_breakPoint_last: "0 \<le> d \<Longrightarrow> closed_breakPoint d n n = 1"
  using closed_totalTime_pos [of d n] by (simp add: closed_breakPoint_def closed_totalTime_def)

lemma closed_breakPoint_first: "closed_breakPoint d n 0 = 1 / closed_totalTime d n"
  by (simp add: closed_breakPoint_def)

lemma closed_breakPoint_mono:
  assumes "0 \<le> d" and "i \<le> j"
  shows "closed_breakPoint d n i \<le> closed_breakPoint d n j"
proof -
  have "(\<Sum>k = 1..i. d ^ k) \<le> (\<Sum>k = 1..j. d ^ k)"
    using assms by (intro sum_mono2) auto
  then show ?thesis
    using closed_totalTime_pos [OF assms(1), of n]
    by (simp add: closed_breakPoint_def divide_right_mono)
qed

lemma closed_breakPoint_zero_decay: "closed_breakPoint 0 n i = 1"
  by (simp add: closed_breakPoint_def closed_totalTime_def power_0_left)

subsection \<open>The easing function on a built profile\<close>

lemma closed_profile_simps:
  "numberOfBounces (closed_profile d th n) = n"
  "timeBetweenBounces (closed_profile d th n) = JNumber (Finite d)"
  "bounceBackThreshold (closed_profile d th n) = th"
  "totalTime (closed_profile d th n) = Finite (closed_totalTime d n)"
  by (simp_all add: closed_profile_def)

lemma closed_profile_items:
  assumes "i \<le> n"
  shows "item (timeBreakPoints (arrays (closed_profile d th n))) i = Finite (closed_breakPoint d n i)"
    and "item (timeHalfwayPoints (arrays (closed_profile d th n))) i = Finite (closed_halfwayPoint d n i)"
    and "item (normalisingFactors (arrays (closed_profile d th n))) i = closed_factor d n i"
    and "item (normalisingConstants (arrays (closed_profile d th n))) i = Finite (closed_constant d i)"
  using assms by (simp_all add: closed_profile_def closed_tables_def item_map_upt del: upt_Suc)

lemma parabola_closed:
  assumes "i \<le> n" and "d \<noteq> 0 \<or> i = 0"
  shows "parabola (closed_profile d th n) i (Finite t)
         = Finite ((closed_totalTime d n)\<^sup>2 * (t - closed_halfwayPoint d n i)
                     * (t - closed_halfwayPoint d n i) + closed_constant d i)"
  using assms(2)
  by (auto simp add: parabola_def Let_def closed_profile_items [OF assms(1)] js_sub_def closed_factor_def)

lemma easing_loop_scan:
  assumes "i \<le> n" and "t < closed_breakPoint d n n"
    and "\<forall>j<i. closed_breakPoint d n j \<le> t"
  shows "\<exists>k. k \<le> n \<and> t < closed_breakPoint d n k \<and> (\<forall>j<k. closed_breakPoint d n j \<le> t)
           \<and> easing_loop (closed_profile d th n) (Finite t) i
               = JNumber (parabola (closed_profile d th n) k (Finite t))"
  using assms(1,3)
proof (induction "n - i" arbitrary: i)
  case 0
  then have "i = n" by simp
  with assms(2) 0 show ?case
    by (subst easing_loop.simps) (auto simp add: closed_profile_simps closed_profile_items simp del: easing_loop.simps)
next
  case (Suc m)
  show ?case
  proof (cases "t < closed_breakPoint d n i")
    case True
    with Suc.prems show ?thesis
      by (subst easing_loop.simps) (auto simp add: closed_profile_simps closed_profile_items simp del: easing_loop.simps)
  next
    case False
    from Suc have m: "m = n - Suc i" and le: "Suc i \<le> n" by simp_all
    have "\<forall>j<Suc i. closed_breakPoint d n j \<le> t"
      using False Suc.prems(2) by (auto simp: less_Suc_eq)
    from Suc.hyps(1) [OF m le this] obtain k where
      "k \<le> n" "t < closed_breakPoint d n k" "\<forall>j<k. closed_breakPoint d n j \<le> t"
      "easing_loop (closed_profile d th n) (Finite t) (Suc i)
         = JNumber (parabola (closed_profile d th n) k (Finite t))" by blast
    moreover have "easing_loop (closed_profile d th n) (Finite t) i
      = easing_loop (closed_profile d th n) (Finite t) (Suc i)"
      using False Suc.prems(1)
      by (subst easing_loop.simps) (simp add: closed_profile_simps closed_profile_items del: easing_loop.simps)
    ultimately show ?thesis by auto
  qed
qed

lemma segment_value:
  assumes d: "0 \<le> d" and k: "k \<le> n" and hi: "t < closed_breakPoint d n k"
    and lo: "\<forall>j<k. closed_breakPoint d n j \<le> t" and t0: "0 \<le> t"
  shows "\<exists>v. parabola (closed_profile d th n) k (Finite t) = Finite v
           \<and> closed_constant d k \<le> v \<and> v \<le> 1
           \<and> (0 < k \<and> t = closed_breakPoint d n (k - 1) \<longrightarrow> v = 1)
           \<and> (t = 0 \<longrightarrow> v = 0)"
proof -
  let ?T = "closed_totalTime d n"
  have T: "1 \<le> ?T" by (rule closed_totalTime_pos [OF d])
  show ?thesis
  proof (cases k)
    case 0
    have v: "parabola (closed_profile d th n) k (Finite t) = Finite (?T\<^sup>2 * t * t)"
      using 0 by (simp add: parabola_closed closed_halfwayPoint_def closed_constant_def)
    from hi 0 have "t < 1 / ?T" by (simp add: closed_breakPoint_first)
    then have "?T * t < 1" using T by (simp add: field_simps)
    moreover have "0 \<le> ?T * t" using T t0 by simp
    ultimately have "(?T * t) * (?T * t) \<le> 1 * 1"
      by (intro mult_mono) simp_all
    then have "?T\<^sup>2 * t * t \<le> 1" by (simp add: power2_eq_square algebra_simps)
    moreover have "0 \<le> ?T\<^sup>2 * t * t" using t0 by simp
    ultimately show ?thesis using v 0 by (simp add: closed_constant_def)
  next
    case (Suc k')
    have lo': "closed_breakPoint d n k' \<le> t" using lo Suc by simp
    have dpos: "d \<noteq> 0"
    proof
      assume "d = 0"
      with hi lo' show False by (simp add: closed_breakPoint_zero_decay)
    qed
    let ?h = "d ^ k / ?T"
    have hp: "closed_halfwayPoint d n k = closed_breakPoint d n k' + ?h"
      using Suc by (simp add: closed_halfwayPoint_def)
    have bk: "closed_breakPoint d n k = closed_breakPoint d n k' + ?h * 2"
      using Suc by (simp add: closed_breakPoint_Suc)
    define u where "u = t - closed_halfwayPoint d n k"
    have u: "- ?h \<le> u" "u \<le> ?h" using lo' hi unfolding u_def hp bk by linarith+
    have h0: "0 \<le> ?h" using d T by simp
    have "u * u \<le> ?h * ?h"
    proof (cases "0 \<le> u")
      case True
      with u h0 show ?thesis by (intro mult_mono) simp_all
    next
      case False
      then have "(- u) * (- u) \<le> ?h * ?h" using u h0 by (intro mult_mono) simp_all
      then show ?thesis by simp
    qed
    then have "?T\<^sup>2 * (u * u) \<le> ?T\<^sup>2 * (?h * ?h)"
      by (intro mult_left_mono) simp_all
    also have "?T\<^sup>2 * (?h * ?h) = d ^ (2 * k)"
      using T by (simp add: power2_eq_square power_double)
    finally have up: "?T\<^sup>2 * u * u \<le> d ^ (2 * k)" by (simp add: mult.assoc)
    have low: "0 \<le> ?T\<^sup>2 * u * u" by (simp add: mult.assoc)
    have v: "parabola (closed_profile d th n) k (Finite t)
             = Finite (?T\<^sup>2 * u * u + closed_constant d k)"
      using dpos k by (simp add: parabola_closed u_def)
    have edge: "t = closed_breakPoint d n k' \<Longrightarrow> ?T\<^sup>2 * u * u = d ^ (2 * k)"
    proof -
      assume "t = closed_breakPoint d n k'"
      then have "u = - ?h" by (simp add: u_def hp)
      then show ?thesis using T by (simp add: power2_eq_square power_double)
    qed
    have tpos: "0 < t"
    proof -
      have "0 < closed_breakPoint d n 0" using T by (simp add: closed_breakPoint_first)
      also have "\<dots> \<le> closed_breakPoint d n k'" by (rule closed_breakPoint_mono [OF d]) simp
      finally show ?thesis using lo' by simp
    qed
    show ?thesis
      using v up low edge tpos Suc by (auto simp add: closed_constant_def)
  qed
qed

subsection \<open>The bounce-count loop\<close>

lemma bounce_loop_continue:
  "js_gt h th \<Longrightarrow> bounce_loop d th h i = bounce_loop d th (js_pow d (2 * i)) (i + 1)"
  by (subst bounce_loop.simps) simp

lemma bounce_loop_stop: "\<not> js_gt h th \<Longrightarrow> bounce_loop d th h i = Some i"
  by (subst bounce_loop.simps) simp

lemma bounce_loop_from:
  assumes "i \<le> N" and "\<not> js_gt (Finite (d ^ (2 * N))) th"
  shows "\<exists>n. bounce_loop (Finite d) th (Finite (d ^ (2 * i))) (Suc i) = Some n"
  using assms
proof (induction "N - i" arbitrary: i)
  case 0
  then have "i = N" by simp
  with 0 show ?case by (simp add: bounce_loop_stop)
next
  case (Suc k)
  show ?case
  proof (cases "js_gt (Finite (d ^ (2 * i))) th")
    case False
    then show ?thesis by (simp add: bounce_loop_stop)
  next
    case True
    from Suc have "k = N - Suc i" "Suc i \<le> N" by simp_all
    from Suc.hyps(1) [OF this Suc.prems(2)] obtain n
      where "bounce_loop (Finite d) th (Finite (d ^ (2 * Suc i))) (Suc (Suc i)) = Some n"
      by blast
    with True show ?thesis
      by (simp add: bounce_loop_continue js_pow_Finite)
  qed
qed

lemma bounce_loop_counter:
  assumes "bounce_loop d th h i = Some n"
  shows "i \<le> n"
proof (rule bounce_loop.raw_induct [where P = "\<lambda>d th h i n. i \<le> n", OF _ assms])
  fix loop :: "number \<Rightarrow> number \<Rightarrow> number \<Rightarrow> nat \<Rightarrow> nat option" and d th h i n
  assume IH: "\<And>d th h i n. loop d th h i = Some n \<Longrightarrow> i \<le> n"
    and step: "(if js_gt h th then loop d th (js_pow d (2 * i)) (i + 1) else Some i) = Some n"
  show "i \<le> n"
  proof (cases "js_gt h th")
    case True
    with step have "loop d th (js_pow d (2 * i)) (i + 1) = Some n" by simp
    from IH [OF this] show ?thesis by simp
  next
    case False
    with step show ?thesis by simp
  qed
qed

lemma small_power:
  assumes "0 \<le> d" and "d < 1" and "0 < (s::real)"
  shows "\<exists>N. d ^ (2 * N) \<le> s"
proof -
  from real_arch_pow_inv [OF assms(3,2)] obtain N where "d ^ N < s" by blast
  moreover have "d ^ (2 * N) \<le> d ^ N"
    using assms by (intro power_decreasing) simp_all
  ultimately show ?thesis by (intro exI [of _ N]) simp
qed

lemma bounce_loop_terminates:
  assumes "0 \<le> d" and "d < 1" and "js_lt (Finite 0) th"
  shows "\<exists>n. bounce_loop (Finite d) th (Finite 1) 0 = Some n"
proof (cases "js_gt (Finite 1) th")
  case False
  then show ?thesis by (simp add: bounce_loop_stop)
next
  case True
  have "\<exists>N. \<not> js_gt (Finite (d ^ (2 * N))) th"
  proof (cases th)
    case (Finite s)
    with assms(3) have "0 < s" by simp
    from small_power [OF assms(1,2) this] Finite show ?thesis
      by (auto simp: js_gt_def not_less)
  qed (use assms(3) in \<open>simp_all add: js_gt_def\<close>)
  then obtain N where "\<not> js_gt (Finite (d ^ (2 * N))) th" ..
  from bounce_loop_from [of 0 N d th, OF _ this] True show ?thesis
    by (simp add: bounce_loop_continue)
qed

lemma bounce_loop_diverges:
  assumes "0 \<le> h" and "0 \<le> d" and "s < 0"
  shows "bounce_loop (Finite d) (Finite s) (Finite h) i = None"
proof (rule ccontr)
  assume "bounce_loop (Finite d) (Finite s) (Finite h) i \<noteq> None"
  then obtain n where run: "bounce_loop (Finite d) (Finite s) (Finite h) i = Some n" by auto
  have "\<forall>d s h. d' = Finite d \<and> th' = Finite s \<and> h' = Finite h \<and> 0 \<le> h \<and> 0 \<le> d \<and> s < 0
          \<longrightarrow> False"
    if "bounce_loop d' th' h' i' = Some n'" for d' th' h' i' n'
  proof (rule bounce_loop.raw_induct [where P = "\<lambda>d' th' h' i' n'.
      \<forall>d s h. d' = Finite d \<and> th' = Finite s \<and> h' = Finite h \<and> 0 \<le> h \<and> 0 \<le> d \<and> s < 0
        \<longrightarrow> False", OF _ that])
    fix loop :: "number \<Rightarrow> number \<Rightarrow> number \<Rightarrow> nat \<Rightarrow> nat option" and d' th' h' i' n'
    assume IH: "\<And>d' th' h' i' n'. loop d' th' h' i' = Some n' \<Longrightarrow>
        \<forall>d s h. d' = Finite d \<and> th' = Finite s \<and> h' = Finite h \<and> 0 \<le> h \<and> 0 \<le> d \<and> s < 0
          \<longrightarrow> False"
      and step: "(if js_gt h' th' then loop d' th' (js_pow d' (2 * i')) (i' + 1) else Some i')
                 = Some n'"
    show "\<forall>d s h. d' = Finite d \<and> th' = Finite s \<and> h' = Finite h \<and> 0 \<le> h \<and> 0 \<le> d \<and> s < 0
            \<longrightarrow> False"
    proof (intro allI impI)
      fix d s h
      assume a: "d' = Finite d \<and> th' = Finite s \<and> h' = Finite h \<and> 0 \<le> h \<and> 0 \<le> d \<and> s < 0"
      then have "js_gt h' th'" by (simp add: js_gt_def)
      with step have "loop d' th' (js_pow d' (2 * i')) (i' + 1) = Some n'" by simp
      moreover have "d' = Finite d \<and> th' = Finite s
          \<and> js_pow d' (2 * i') = Finite (d ^ (2 * i')) \<and> 0 \<le> d ^ (2 * i') \<and> 0 \<le> d \<and> s < 0"
        using a by (simp add: js_pow_Finite)
      ultimately show False using IH by blast
    qed
  qed
  from this [OF run] assms show False by blast
qed

lemma default_bounces:
  "bounce_loop (Finite (1 / 2)) (Finite (1 / 100)) (Finite 1) 0 = Some 5"
  by (simp add: bounce_loop_continue bounce_loop_stop js_gt_def js_pow_Finite power_divide)

lemma zero_decay_bounces:
  "bounce_loop (Finite 0) (Finite (1 / 100)) (Finite 1) 0 = Some 2"
  by (simp add: bounce_loop_continue bounce_loop_stop js_gt_def js_pow_Finite)

lemma default_total: "totalTime_loop (Finite (1 / 2)) 5 (Suc 0) (Finite 1) = Finite (47 / 16)"
  by simp

subsection \<open>From a call of the builder to the closed forms\<close>

lemma makeProfile_SomeD:
  assumes "0 \<le> d" and "d < 1" and "truthy th"
    and "makeProfile (JNumber (Finite d)) th = Some P"
  shows "\<exists>n. P = closed_profile d th n
           \<and> bounce_loop (Finite d) (to_number th) (Finite 1) 0 = Some n"
  using assms(4) unfolding makeProfile_closed [OF assms(1-3)] by auto

lemma makeProfile_returns:
  assumes "0 \<le> d" and "d < 1" and "truthy th" and "js_lt (Finite 0) (to_number th)"
  shows "\<exists>P. makeProfile (JNumber (Finite d)) th = Some P"
  using bounce_loop_terminates [OF assms(1,2,4)]
  unfolding makeProfile_closed [OF assms(1-3)] by auto

lemma easing_segment:
  assumes "0 \<le> d" and "t < 1"
  shows "\<exists>k. k \<le> n \<and> t < closed_breakPoint d n k \<and> (\<forall>j<k. closed_breakPoint d n j \<le> t)
           \<and> easing (closed_profile d th n) (Finite t)
               = JNumber (parabola (closed_profile d th n) k (Finite t))"
proof -
  have "t < closed_breakPoint d n n" using assms by (simp add: closed_breakPoint_last)
  from easing_loop_scan [of 0 n t d th, OF _ this] assms(2) show ?thesis
    by (simp add: easing_def del: easing_loop.simps)
qed

lemma closed_constant_range:
  assumes "0 \<le> d" and "d < 1"
  shows "0 \<le> closed_constant d k" and "closed_constant d k \<le> 1"
  using assms power_le_one [of d "2 * k"] by (simp_all add: closed_constant_def)

lemma easing_range:
  assumes "0 \<le> d" and "d < 1" and "0 \<le> t" and "t \<le> 1"
  shows "\<exists>v. easing (closed_profile d th n) (Finite t) = JNumber (Finite v) \<and> 0 \<le> v \<and> v \<le> 1
           \<and> (t = 0 \<longrightarrow> v = 0) \<and> (t = 1 \<longrightarrow> v = 1)"
proof (cases "t = 1")
  case True
  then show ?thesis by (simp add: easing_def)
next
  case False
  with assms have "t < 1" by simp
  from easing_segment [OF assms(1) this, of n th] obtain k where k: "k \<le> n"
    "t < closed_breakPoint d n k" "\<forall>j<k. closed_breakPoint d n j \<le> t"
    "easing (closed_profile d th n) (Finite t)
       = JNumber (parabola (closed_profile d th n) k (Finite t))" by blast
  from segment_value [OF assms(1) k(1,2,3) assms(3), of th] obtain v where
    "parabola (closed_profile d th n) k (Finite t) = Finite v" "closed_constant d k \<le> v"
    "v \<le> 1" "t = 0 \<longrightarrow> v = 0" by blast
  with closed_constant_range(1) [OF assms(1,2), of k] k(4) False show ?thesis by auto
qed

lemma easing_at_breakPoint:
  assumes "0 \<le> d" and "d < 1" and "i \<le> n"
  shows "easing (closed_profile d th n) (Finite (closed_breakPoint d n i)) = JNumber (Finite 1)"
proof (cases "closed_breakPoint d n i = 1")
  case True
  then show ?thesis by (simp add: easing_def)
next
  case False
  let ?t = "closed_breakPoint d n i"
  have "?t \<le> closed_breakPoint d n n" by (rule closed_breakPoint_mono [OF assms(1,3)])
  with False have t1: "?t < 1" by (simp add: closed_breakPoint_last [OF assms(1)])
  have "0 < closed_breakPoint d n 0"
    using closed_totalTime_pos [OF assms(1), of n] by (simp add: closed_breakPoint_first)
  also have "\<dots> \<le> ?t" by (rule closed_breakPoint_mono [OF assms(1)]) simp
  finally have t0: "0 \<le> ?t" by simp
  from easing_segment [OF assms(1) t1, of n th] obtain k where k: "k \<le> n"
    "?t < closed_breakPoint d n k" "\<forall>j<k. closed_breakPoint d n j \<le> ?t"
    "easing (closed_profile d th n) (Finite ?t)
       = JNumber (parabola (closed_profile d th n) k (Finite ?t))" by blast
  have "i < k"
  proof (rule ccontr)
    assume "\<not> i < k"
    then have "closed_breakPoint d n k \<le> ?t" by (intro closed_breakPoint_mono [OF assms(1)]) simp
    with k(2) show False by simp
  qed
  then have "closed_breakPoint d n (k - 1) \<le> ?t" "?t \<le> closed_breakPoint d n (k - 1)"
    using k(3) by (auto intro: closed_breakPoint_mono [OF assms(1)])
  then have eq: "0 < k \<and> ?t = closed_breakPoint d n (k - 1)" using \<open>i < k\<close> by simp
  from segment_value [OF assms(1) k(1,2,3) t0, of th] eq k(4) show ?thesis by auto
qed

lemma parabola_at_own_breakPoint:
  assumes "0 \<le> d" and "i \<le> n" and "d \<noteq> 0 \<or> i = 0"
  shows "parabola (closed_profile d th n) i (Finite (closed_breakPoint d n i)) = Finite 1"
proof -
  let ?T = "closed_totalTime d n"
  have T: "?T \<noteq> 0" using closed_totalTime_pos [OF assms(1), of n] by simp
  have "?T\<^sup>2 * (closed_breakPoint d n i - closed_halfwayPoint d n i)
          * (closed_breakPoint d n i - closed_halfwayPoint d n i) + closed_constant d i = 1"
  proof (cases i)
    case 0
    then show ?thesis
      using T by (simp add: closed_breakPoint_first closed_halfwayPoint_def closed_constant_def
          power2_eq_square)
  next
    case (Suc j)
    have "closed_breakPoint d n i - closed_halfwayPoint d n i = d ^ i / ?T"
      using Suc by (simp add: closed_breakPoint_Suc closed_halfwayPoint_def)
    then show ?thesis
      using T by (simp add: closed_constant_def power2_eq_square power_double)
  qed
  then show ?thesis by (simp add: parabola_closed [OF assms(2,3)])
qed


subsection \<open>Three calls evaluated\<close>

lemma makeProfile_zero_decay:
  "makeProfile (JNumber (Finite 0)) (JNumber (Finite (1 / 100))) = Some zero_decay_profile"
  by (simp add: makeProfile_def normalise_timeBetweenBounces_def
      normalise_bounceBackThreshold_def js_ge_def zero_decay_bounces Let_def
      initial_tables_def table_step_def item_def js_sub_def signed_infinity_def
      js_pow_Finite eval_nat_numeral)

lemma makeProfile_negative_decay:
  "makeProfile (JNumber (Finite (- 0.2))) JUndefined = Some zero_decay_profile"
  by (simp add: makeProfile_def normalise_timeBetweenBounces_def
      normalise_bounceBackThreshold_def js_ge_def zero_decay_bounces Let_def
      initial_tables_def table_step_def item_def js_sub_def signed_infinity_def
      js_pow_Finite eval_nat_numeral)

lemma makeProfile_default:
  "makeProfile (JNumber (Finite (1 / 2))) (JNumber (Finite (1 / 100)))
   = Some (closed_profile (1 / 2) (JNumber (Finite (1 / 100))) 5)"
  by (simp add: makeProfile_closed default_bounces)

lemma makeProfile_no_arguments:
  "makeProfile JUndefined JUndefined
   = makeProfile (JNumber (Finite (1 / 2))) (JNumber (Finite (1 / 100)))"
  by (simp add: makeProfile_def normalise_timeBetweenBounces_def
      normalise_bounceBackThreshold_def js_ge_def)

lemma default_closed_totalTime: "closed_totalTime (1 / 2) 5 = 47 / 16"
  using totalTime_loop_closed [of "1 / 2" 5] default_total by simp

subsection \<open>The arguments\<close>

lemma is_number_normalise: "is_number (normalise_timeBetweenBounces tbb)"
  by (simp add: normalise_timeBetweenBounces_def)

lemma normalise_bounceBackThreshold_cases:
  "normalise_bounceBackThreshold (normalise_timeBetweenBounces tbb) bbt
   = (if truthy bbt then bbt else JNumber (Finite (1 / 100)))"
  by (simp add: normalise_bounceBackThreshold_def is_number_normalise)





section \<open>The claims of the specification\<close>

text \<open>
  Claim C1 (impact continuity), as the code has it. For a decay ratio \<open>d\<close> in [0, 1) and a
  truthy threshold, the builder returns whenever the threshold is positive, and on every
  profile it returns the easing function is exactly 1 at every break point
  \<^verbatim>\<open>timeBreakPoints[i]\<close>. The parabola of segment \<open>i\<close>, evaluated at the segment's own
  upper break point, is exactly 1 when \<open>d\<close> is positive, and for segment 0 whatever \<open>d\<close> is.
\<close>
theorem impact_continuity:
  assumes "0 \<le> d" and "d < 1" and "truthy th"
  shows "(js_lt (Finite 0) (to_number th) \<longrightarrow> makeProfile (JNumber (Finite d)) th \<noteq> None)
       \<and> (\<forall>P i. makeProfile (JNumber (Finite d)) th = Some P \<and> i \<le> numberOfBounces P \<longrightarrow>
             easing P (item (timeBreakPoints (arrays P)) i) = JNumber (Finite 1)
           \<and> (0 < d \<or> i = 0 \<longrightarrow>
                parabola P i (item (timeBreakPoints (arrays P)) i) = Finite 1))"
proof (intro conjI allI impI)
  assume "js_lt (Finite 0) (to_number th)"
  from makeProfile_returns [OF assms this] show "makeProfile (JNumber (Finite d)) th \<noteq> None"
    by auto
next
  fix P i
  assume a: "makeProfile (JNumber (Finite d)) th = Some P \<and> i \<le> numberOfBounces P"
  with makeProfile_SomeD [OF assms] obtain n where P: "P = closed_profile d th n" by blast
  with a have i: "i \<le> n" by (simp add: closed_profile_simps)
  show "easing P (item (timeBreakPoints (arrays P)) i) = JNumber (Finite 1)"
    unfolding P closed_profile_items(1) [OF i]
    by (rule easing_at_breakPoint [OF assms(1,2) i])
  assume "0 < d \<or> i = 0"
  then have "d \<noteq> 0 \<or> i = 0" by auto
  from parabola_at_own_breakPoint [OF assms(1) i this]
  show "parabola P i (item (timeBreakPoints (arrays P)) i) = Finite 1"
    unfolding P closed_profile_items(1) [OF i] .
qed

text \<open>The default call has six segments; segment 3 is one of them.\<close>
theorem impact_continuity_witness:
  "\<exists>P. makeProfile (JNumber (Finite (1 / 2))) (JNumber (Finite (1 / 100))) = Some P
     \<and> numberOfBounces P = 5
     \<and> easing P (item (timeBreakPoints (arrays P)) 3) = JNumber (Finite 1)
     \<and> parabola P 3 (item (timeBreakPoints (arrays P)) 3) = Finite 1"
  using impact_continuity [of "1 / 2" "JNumber (Finite (1 / 100))"]
  by (simp add: makeProfile_default closed_profile_simps)

text \<open>
  C1 as stated fails at a decay ratio of 0: the factor of bounce 1 is \<^verbatim>\<open>0 / 0\<close>, so
  the parabola of segment 1 at its own break point is \<^verbatim>\<open>NaN\<close>, not 1.
\<close>
theorem impact_continuity_counterexample:
  "makeProfile (JNumber (Finite 0)) (JNumber (Finite (1 / 100))) = Some zero_decay_profile
   \<and> parabola zero_decay_profile 1 (item (timeBreakPoints (arrays zero_decay_profile)) 1) = NaN"
  by (simp add: makeProfile_zero_decay parabola_def item_def)

text \<open>
  Claim C2 (endpoint values). For a decay ratio in [0, 1) and a truthy threshold, the
  builder returns whenever the threshold is positive, and every easing function it returns
  is 0 at 0 and 1 at 1.
\<close>
theorem endpoint_values:
  assumes "0 \<le> d" and "d < 1" and "truthy th"
  shows "(js_lt (Finite 0) (to_number th) \<longrightarrow> makeBounceFunction (JNumber (Finite d)) th \<noteq> None)
       \<and> (\<forall>evaluate. makeBounceFunction (JNumber (Finite d)) th = Some evaluate \<longrightarrow>
             evaluate (Finite 0) = JNumber (Finite 0) \<and> evaluate (Finite 1) = JNumber (Finite 1))"
proof (intro conjI allI impI)
  assume "js_lt (Finite 0) (to_number th)"
  from makeProfile_returns [OF assms this]
  show "makeBounceFunction (JNumber (Finite d)) th \<noteq> None"
    by (auto simp: makeBounceFunction_def)
next
  fix evaluate
  assume "makeBounceFunction (JNumber (Finite d)) th = Some evaluate"
  then obtain P where "makeProfile (JNumber (Finite d)) th = Some P" and ev: "evaluate = easing P"
    by (auto simp: makeBounceFunction_def)
  with makeProfile_SomeD [OF assms] obtain n where P: "P = closed_profile d th n" by blast
  from easing_range [OF assms(1,2), of 0 th n]
  show "evaluate (Finite 0) = JNumber (Finite 0)" by (auto simp: ev P)
  show "evaluate (Finite 1) = JNumber (Finite 1)" by (simp add: ev easing_def)
qed

text \<open>The default call returns such a function.\<close>
theorem endpoint_values_witness:
  "\<exists>evaluate. makeBounceFunction (JNumber (Finite (1 / 2))) (JNumber (Finite (1 / 100)))
       = Some evaluate
     \<and> evaluate (Finite 0) = JNumber (Finite 0) \<and> evaluate (Finite 1) = JNumber (Finite 1)"
  using endpoint_values [of "1 / 2" "JNumber (Finite (1 / 100))"] by auto




text \<open>
  Claim C4 (final break point, totality of the lookup). On every profile built from a decay
  ratio in [0, 1) and a truthy threshold, the last break point is exactly 1, and for every
  \<open>t\<close> in [0, 1] the easing function does not fall through to \<^verbatim>\<open>undefined\<close>: either
  \<open>t = 1\<close>, or the scan stops in a segment whose break point exceeds \<open>t\<close> and returns that
  segment's parabola.
\<close>
theorem lookup_total:
  assumes "0 \<le> d" and "d < 1" and "truthy th"
  shows "(js_lt (Finite 0) (to_number th) \<longrightarrow> makeProfile (JNumber (Finite d)) th \<noteq> None)
       \<and> (\<forall>P. makeProfile (JNumber (Finite d)) th = Some P \<longrightarrow>
             item (timeBreakPoints (arrays P)) (numberOfBounces P) = Finite 1
           \<and> (\<forall>t. 0 \<le> t \<and> t \<le> 1 \<longrightarrow>
                easing P (Finite t) \<noteq> JUndefined
              \<and> (t = 1 \<or> (\<exists>i. i \<le> numberOfBounces P
                    \<and> js_lt (Finite t) (item (timeBreakPoints (arrays P)) i)
                    \<and> easing P (Finite t) = JNumber (parabola P i (Finite t))))))"
proof (intro conjI allI impI)
  assume "js_lt (Finite 0) (to_number th)"
  from makeProfile_returns [OF assms this] show "makeProfile (JNumber (Finite d)) th \<noteq> None"
    by auto
next
  fix P
  assume "makeProfile (JNumber (Finite d)) th = Some P"
  with makeProfile_SomeD [OF assms] obtain n where P: "P = closed_profile d th n" by blast
  show "item (timeBreakPoints (arrays P)) (numberOfBounces P) = Finite 1"
    by (simp add: P closed_profile_simps closed_profile_items closed_breakPoint_last [OF assms(1)])
  fix t :: real
  assume t: "0 \<le> t \<and> t \<le> 1"
  from easing_range [OF assms(1,2), of t th n] t
  show "easing P (Finite t) \<noteq> JUndefined" by (auto simp: P)
  show "t = 1 \<or> (\<exists>i. i \<le> numberOfBounces P
          \<and> js_lt (Finite t) (item (timeBreakPoints (arrays P)) i)
          \<and> easing P (Finite t) = JNumber (parabola P i (Finite t)))"
  proof (cases "t = 1")
    case False
    with t have "t < 1" by simp
    from easing_segment [OF assms(1) this, of n th] obtain k where "k \<le> n"
      "t < closed_breakPoint d n k"
      "easing (closed_profile d th n) (Finite t)
         = JNumber (parabola (closed_profile d th n) k (Finite t))" by blast
    then have "k \<le> numberOfBounces P
          \<and> js_lt (Finite t) (item (timeBreakPoints (arrays P)) k)
          \<and> easing P (Finite t) = JNumber (parabola P k (Finite t))"
      by (simp add: P closed_profile_simps closed_profile_items)
    then show ?thesis by blast
  qed simp
qed

text \<open>The default call, at \<open>t = 1/2\<close>.\<close>
theorem lookup_total_witness:
  "\<exists>P. makeProfile (JNumber (Finite (1 / 2))) (JNumber (Finite (1 / 100))) = Some P
     \<and> item (timeBreakPoints (arrays P)) (numberOfBounces P) = Finite 1
     \<and> easing P (Finite (1 / 2)) \<noteq> JUndefined"
proof -
  have "(0::real) \<le> 1 / 2" "(1 / 2 :: real) < 1" "truthy (JNumber (Finite (1 / 100)))"
    "(0::real) \<le> 1 / 2 \<and> (1 / 2 :: real) \<le> 1"
    by simp_all
  from lookup_total [OF this(1-3)] makeProfile_default this(4) show ?thesis by blast
qed

text \<open>
  Claim C6 (default parameters). The call with 0.5 and 0.01, which is also the call with
  no arguments, has 5 bounces, a total time of 2.9375 and a first break point of
  \<open>1 / 2.9375\<close>, which 0.340426 approximates to six decimals.
\<close>
theorem default_constants:
  "\<exists>P. makeProfile (JNumber (Finite 0.5)) (JNumber (Finite 0.01)) = Some P
     \<and> makeProfile JUndefined JUndefined = Some P
     \<and> numberOfBounces P = 5
     \<and> totalTime P = Finite 2.9375
     \<and> item (timeBreakPoints (arrays P)) 0 = Finite (1 / 2.9375)
     \<and> \<bar>1 / 2.9375 - 0.340426\<bar> < (0.0000005 :: real)"
proof -
  let ?P = "closed_profile (1 / 2) (JNumber (Finite (1 / 100))) 5"
  have "makeProfile (JNumber (Finite 0.5)) (JNumber (Finite 0.01)) = Some ?P"
    using makeProfile_default by simp
  moreover have "makeProfile JUndefined JUndefined = Some ?P"
    using makeProfile_default by (simp add: makeProfile_no_arguments)
  moreover have "numberOfBounces ?P = 5" by (simp add: closed_profile_simps)
  moreover have "totalTime ?P = Finite 2.9375"
    by (simp add: closed_profile_simps default_closed_totalTime)
  moreover have "item (timeBreakPoints (arrays ?P)) 0 = Finite (1 / 2.9375)"
    by (simp add: closed_profile_items closed_breakPoint_first default_closed_totalTime)
  moreover have "\<bar>1 / 2.9375 - 0.340426\<bar> < (0.0000005 :: real)" by simp
  ultimately show ?thesis by blast
qed

text \<open>
  Claim C7 (negative decay ratio), as the code has it. A decay ratio of -0.2 with the
  default threshold is clamped to 0, and the number of bounces is 2: the loop body runs
  once for \<open>0\<^sup>0 = 1\<close> and once more for \<open>0\<^sup>2 = 0\<close>, counting both.
\<close>
theorem negative_decay_clamped:
  "map_option timeBetweenBounces (makeProfile (JNumber (Finite (- 0.2))) JUndefined)
     = Some (JNumber (Finite 0))
   \<and> map_option numberOfBounces (makeProfile (JNumber (Finite (- 0.2))) JUndefined) = Some 2"
  unfolding makeProfile_negative_decay by simp

text \<open>C7 as stated gives 1 bounce; the code does not.\<close>
theorem negative_decay_clamped_counterexample:
  "map_option numberOfBounces (makeProfile (JNumber (Finite (- 0.2))) JUndefined) \<noteq> Some 1"
  unfolding makeProfile_negative_decay by simp

text \<open>
  Claim C8 (minimum bounce count), as the code has it. For a decay ratio in [0, 1) and a
  truthy threshold below 1, the loop test holds on entry, so the body runs at least once,
  and whenever the builder returns, the number of bounces is at least 1. The builder
  returns when the threshold is positive.
\<close>
theorem bounce_count_at_least_one:
  assumes "0 \<le> d" and "d < 1" and "truthy th" and "js_lt (to_number th) (Finite 1)"
  shows "js_gt (Finite 1) (to_number th)
       \<and> bounce_loop (Finite d) (to_number th) (Finite 1) 0
           = bounce_loop (Finite d) (to_number th) (js_pow (Finite d) (2 * 0)) (0 + 1)
       \<and> (\<forall>P. makeProfile (JNumber (Finite d)) th = Some P \<longrightarrow> 1 \<le> numberOfBounces P)
       \<and> (js_lt (Finite 0) (to_number th) \<longrightarrow>
            (\<exists>P. makeProfile (JNumber (Finite d)) th = Some P))"
proof (intro conjI allI impI)
  show test: "js_gt (Finite 1) (to_number th)" using assms(4) by (simp add: js_gt_def)
  show step: "bounce_loop (Finite d) (to_number th) (Finite 1) 0
      = bounce_loop (Finite d) (to_number th) (js_pow (Finite d) (2 * 0)) (0 + 1)"
    by (rule bounce_loop_continue [OF test])
  {
    fix P
    assume "makeProfile (JNumber (Finite d)) th = Some P"
    with makeProfile_SomeD [OF assms(1-3)] obtain n where P: "P = closed_profile d th n"
      and "bounce_loop (Finite d) (to_number th) (Finite 1) 0 = Some n" by blast
    with step have "bounce_loop (Finite d) (to_number th) (js_pow (Finite d) (2 * 0)) (0 + 1)
      = Some n" by simp
    from bounce_loop_counter [OF this] show "1 \<le> numberOfBounces P"
      by (simp add: P closed_profile_simps)
  }
  assume "js_lt (Finite 0) (to_number th)"
  from makeProfile_returns [OF assms(1-3) this]
  show "\<exists>P. makeProfile (JNumber (Finite d)) th = Some P" .
qed

text \<open>The default call.\<close>
theorem bounce_count_at_least_one_witness:
  "js_gt (Finite 1) (Finite (1 / 100))
   \<and> (\<exists>P. makeProfile (JNumber (Finite (1 / 2))) (JNumber (Finite (1 / 100))) = Some P
         \<and> 1 \<le> numberOfBounces P)"
proof -
  have "(0::real) \<le> 1 / 2" "(1 / 2 :: real) < 1" "truthy (JNumber (Finite (1 / 100)))"
    "js_lt (to_number (JNumber (Finite (1 / 100)))) (Finite 1)"
    and pos: "js_lt (Finite 0) (to_number (JNumber (Finite (1 / 100))))"
    by simp_all
  from bounce_count_at_least_one [OF this(1-4)] pos show ?thesis
    by (metis to_number.simps(4))
qed

text \<open>
  C8 as stated promises a bounce count for every truthy threshold below 1. At a threshold
  of -1 there is none: every height is above -1, the loop never ends and the builder never
  returns.
\<close>
theorem negative_threshold_never_returns:
  "truthy (JNumber (Finite (- 1)))
   \<and> js_lt (to_number (JNumber (Finite (- 1)))) (Finite 1)
   \<and> makeProfile (JNumber (Finite (1 / 2))) (JNumber (Finite (- 1))) = None
   \<and> makeBounceFunction (JNumber (Finite (1 / 2))) (JNumber (Finite (- 1))) = None"
proof -
  have "bounce_loop (Finite (1 / 2)) (Finite (- 1)) (Finite 1) 0 = None"
    by (rule bounce_loop_diverges) simp_all
  then have "makeProfile (JNumber (Finite (1 / 2))) (JNumber (Finite (- 1))) = None"
    by (simp add: makeProfile_closed)
  then show ?thesis by (simp add: makeBounceFunction_def)
qed



text \<open>
  Claim C10 (threshold of at least 1). When the threshold is truthy and at least 1, the
  loop test fails on entry, and whatever the decay ratio the builder returns the profile
  with no bounce, a total time of 1 and the single segment with break point 1, vertex 0,
  factor 1 and constant 0; its easing function is \<open>t * t\<close> on [0, 1) and 1 at 1.
\<close>
theorem threshold_at_least_one:
  assumes "truthy th" and "js_ge (to_number th) (Finite 1)"
  shows "\<not> js_gt (Finite 1) (to_number th)
       \<and> (\<exists>P. makeProfile tbb th = Some P
            \<and> makeBounceFunction tbb th = Some (easing P)
            \<and> numberOfBounces P = 0
            \<and> totalTime P = Finite 1
            \<and> arrays P = \<lparr>timeBreakPoints = [Finite 1], timeHalfwayPoints = [Finite 0],
                           normalisingFactors = [Finite 1], normalisingConstants = [Finite 0]\<rparr>
            \<and> (\<forall>t. 0 \<le> t \<and> t < 1 \<longrightarrow> easing P (Finite t) = JNumber (Finite (t * t)))
            \<and> easing P (Finite 1) = JNumber (Finite 1))"
proof -
  let ?P = "\<lparr>timeBetweenBounces = normalise_timeBetweenBounces tbb,
             bounceBackThreshold = th,
             numberOfBounces = 0,
             totalTime = Finite 1,
             arrays = \<lparr>timeBreakPoints = [Finite 1], timeHalfwayPoints = [Finite 0],
                        normalisingFactors = [Finite 1], normalisingConstants = [Finite 0]\<rparr>\<rparr>"
  have test: "\<not> js_gt (Finite 1) (to_number th)"
    using assms(2) by (simp add: js_ge_def js_gt_def)
  have th: "normalise_bounceBackThreshold (normalise_timeBetweenBounces tbb) th = th"
    using assms(1) by (simp add: normalise_bounceBackThreshold_cases)
  have P: "makeProfile tbb th = Some ?P"
    by (simp add: makeProfile_def Let_def th bounce_loop_stop [OF test] initial_tables_def item_def)
  have "easing ?P (Finite t) = JNumber (Finite (t * t))" if "0 \<le> t \<and> t < 1" for t
    using that by (simp add: easing_def parabola_def item_def js_sub_def)
  moreover have "easing ?P (Finite 1) = JNumber (Finite 1)" by (simp add: easing_def)
  ultimately show ?thesis using test P by (simp add: makeBounceFunction_def)
qed

text \<open>A threshold of 1 with a decay ratio of one half, at \<open>t = 1/2\<close>.\<close>
theorem threshold_at_least_one_witness:
  "\<exists>P. makeProfile (JNumber (Finite (1 / 2))) (JNumber (Finite 1)) = Some P
     \<and> numberOfBounces P = 0
     \<and> easing P (Finite (1 / 2)) = JNumber (Finite (1 / 2 * (1 / 2)))"
proof -
  have "truthy (JNumber (Finite 1))" "js_ge (to_number (JNumber (Finite 1))) (Finite 1)"
    and t: "(0::real) \<le> 1 / 2 \<and> (1 / 2 :: real) < 1"
    by (simp_all add: js_ge_def)
  from threshold_at_least_one [OF this(1,2), of "JNumber (Finite (1 / 2))"] t
  show ?thesis by blast
qed

end
